theory Spec2Isabelle
  imports Main "HOL-Library.Word"
begin

section \<open>The congestion package: the algorithm tag and the Loco sender\<close>

text \<open>
  The development embeds \<^verbatim>\<open>internal/congestion\<close> (the stringer output for
  \<^verbatim>\<open>CongestionAlgo\<close> and the Loco sender) and the factory \<^verbatim>\<open>NewAckHandler\<close> of
  package \<^verbatim>\<open>ackhandler\<close>. A Go method with a pointer receiver and no result is a
  function from the struct and the arguments to the struct afterwards and the list of
  tracer calls it made; a method whose body is a single \<^verbatim>\<open>return\<close> of a value is a
  function to that value.
\<close>

subsection \<open>Types declared in other packages\<close>

text \<open>
  \<^verbatim>\<open>protocol.ByteCount\<close>, \<^verbatim>\<open>protocol.PacketNumber\<close> and \<^verbatim>\<open>Bandwidth\<close> are declared
  outside the sources at hand. The spec describes them as integers that hold 62-bit
  packet numbers and the constant 100,000,000,000; they are taken as Go's 64-bit
  integers. \<^verbatim>\<open>*\<close> on them wraps modulo \<open>2 ^ 64\<close> whether the type is signed or not.
  Where a comparison is stated, it is stated for the unsigned order (\<open><\<close>) and for the
  signed one (\<open><s\<close>).
\<close>

type_synonym ByteCount = "64 word"
type_synonym PacketNumber = "64 word"
type_synonym Bandwidth = "64 word"

text \<open>
  An instant of \<^verbatim>\<open>time.Time\<close>, as nanoseconds since the instant of the zero value
  \<^verbatim>\<open>time.Time{}\<close>.
\<close>

type_synonym Time = int

definition zeroTime :: Time where
  "zeroTime = 0"

text \<open>
  Modelled from the spec: \<^verbatim>\<open>logging.CongestionState\<close> is declared in package logging,
  whose source holds no declaration; the spec lists its values as SlowStart,
  CongestionAvoidance, RecoveryStart and ApplicationLimited.
\<close>

datatype CongestionState =
    CongestionStateSlowStart
  | CongestionStateCongestionAvoidance
  | CongestionStateRecoveryStart
  | CongestionStateApplicationLimited

text \<open>
  The one method of \<^verbatim>\<open>logging.ConnectionTracer\<close> the sender calls. A call is recorded
  as an event; the events of a run are the calls in order.
\<close>

datatype tracer_event = UpdatedCongestionState CongestionState

text \<open>
  What the sender's file uses and does not declare: the constants of package protocol,
  the package constant \<^verbatim>\<open>initialCongestionWindow\<close> (a number of packets; the field of
  the same name below is in bytes), the constructor \<^verbatim>\<open>NewCubic\<close>, and the zero values
  Go gives to the fields the struct literal leaves out.
\<close>

record ('hss, 'cubic, 'clock) package_env =
  InvalidPacketNumber :: PacketNumber
  MaxByteCount :: ByteCount
  MaxCongestionWindowPackets :: ByteCount
  initialCongestionWindowPackets :: ByteCount
  NewCubic :: "'clock \<Rightarrow> 'cubic"
  zeroHybridSlowStart :: 'hss
  zeroCongestionState :: CongestionState

subsection \<open>The struct\<close>

text \<open>
  The collaborators' types (\<^verbatim>\<open>HybridSlowStart\<close>, \<^verbatim>\<open>*utils.RTTStats\<close>, \<^verbatim>\<open>*Cubic\<close>,
  \<^verbatim>\<open>*pacer\<close>, \<^verbatim>\<open>Clock\<close>, \<^verbatim>\<open>logging.ConnectionTracer\<close>) are type parameters. The
  pacer, which the constructor leaves \<^verbatim>\<open>nil\<close>, and the tracer, which the code compares
  with \<^verbatim>\<open>nil\<close>, are options: \<open>None\<close> is \<^verbatim>\<open>nil\<close>.
\<close>

record ('hss, 'rtt, 'cubic, 'pacer, 'clock, 'tracer) locoSender =
  hybridSlowStart :: 'hss
  rttStats :: 'rtt
  cubic :: 'cubic
  pacer :: "'pacer option"
  clock :: 'clock
  reno :: bool
  largestSentPacketNumber :: PacketNumber
  largestAckedPacketNumber :: PacketNumber
  largestSentAtLastCutback :: PacketNumber
  lastCutbackExitedSlowstart :: bool
  congestionWindow :: ByteCount
  slowStartThreshold :: ByteCount
  numAckedPackets :: "64 word"
  initialCongestionWindow :: ByteCount
  initialMaxCongestionWindow :: ByteCount
  maxDatagramSize :: ByteCount
  lastState :: CongestionState
  tracer :: "'tracer option"

subsection \<open>Construction\<close>

definition newLocoSender ::
  "('hss, 'cubic, 'clock) package_env \<Rightarrow> 'clock \<Rightarrow> 'rtt \<Rightarrow> bool \<Rightarrow>
   ByteCount \<Rightarrow> ByteCount \<Rightarrow> ByteCount \<Rightarrow> 'tracer option \<Rightarrow>
   ('hss, 'rtt, 'cubic, 'pacer, 'clock, 'tracer) locoSender \<times> tracer_event list" where
  "newLocoSender env clk rtt rn initialMaxDatagramSize initialCwnd initialMaxCwnd tr =
     (let l = \<lparr> hybridSlowStart = zeroHybridSlowStart env,
                rttStats = rtt,
                cubic = NewCubic env clk,
                pacer = None,
                clock = clk,
                reno = rn,
                largestSentPacketNumber = InvalidPacketNumber env,
                largestAckedPacketNumber = InvalidPacketNumber env,
                largestSentAtLastCutback = InvalidPacketNumber env,
                lastCutbackExitedSlowstart = False,
                congestionWindow = initialCwnd,
                slowStartThreshold = MaxByteCount env,
                numAckedPackets = 0,
                initialCongestionWindow = initialCwnd,
                initialMaxCongestionWindow = initialMaxCwnd,
                maxDatagramSize = initialMaxDatagramSize,
                lastState = zeroCongestionState env,
                tracer = tr \<rparr>
      in case tr of
           None \<Rightarrow> (l, [])
         | Some _ \<Rightarrow> (l\<lparr>lastState := CongestionStateSlowStart\<rparr>,
                       [UpdatedCongestionState CongestionStateSlowStart]))"

definition NewLocoSender ::
  "('hss, 'cubic, 'clock) package_env \<Rightarrow> 'clock \<Rightarrow> 'rtt \<Rightarrow> ByteCount \<Rightarrow> bool \<Rightarrow>
   'tracer option \<Rightarrow>
   ('hss, 'rtt, 'cubic, 'pacer, 'clock, 'tracer) locoSender \<times> tracer_event list" where
  "NewLocoSender env clk rtt initialMaxDatagramSize rn tr =
     newLocoSender env clk rtt rn initialMaxDatagramSize
       (initialCongestionWindowPackets env * initialMaxDatagramSize)
       (MaxCongestionWindowPackets env * initialMaxDatagramSize)
       tr"

subsection \<open>Observers\<close>

definition TimeUntilSend ::
  "('hss, 'rtt, 'cubic, 'pacer, 'clock, 'tracer) locoSender \<Rightarrow> ByteCount \<Rightarrow> Time" where
  "TimeUntilSend l bytesInFlight = zeroTime"

definition HasPacingBudget ::
  "('hss, 'rtt, 'cubic, 'pacer, 'clock, 'tracer) locoSender \<Rightarrow> bool" where
  "HasPacingBudget l = True"

definition maxCongestionWindow ::
  "('hss, 'rtt, 'cubic, 'pacer, 'clock, 'tracer) locoSender \<Rightarrow> ByteCount" where
  "maxCongestionWindow l = maxDatagramSize l * 10000"

definition minCongestionWindow ::
  "('hss, 'rtt, 'cubic, 'pacer, 'clock, 'tracer) locoSender \<Rightarrow> ByteCount" where
  "minCongestionWindow l = maxDatagramSize l * 1000"

definition CanSend ::
  "('hss, 'rtt, 'cubic, 'pacer, 'clock, 'tracer) locoSender \<Rightarrow> ByteCount \<Rightarrow> bool" where
  "CanSend l bytesInFlight = True"

definition InRecovery ::
  "('hss, 'rtt, 'cubic, 'pacer, 'clock, 'tracer) locoSender \<Rightarrow> bool" where
  "InRecovery l = False"

definition InSlowStart ::
  "('hss, 'rtt, 'cubic, 'pacer, 'clock, 'tracer) locoSender \<Rightarrow> bool" where
  "InSlowStart l = False"

definition GetCongestionWindow ::
  "('hss, 'rtt, 'cubic, 'pacer, 'clock, 'tracer) locoSender \<Rightarrow> ByteCount" where
  "GetCongestionWindow l = maxDatagramSize l * 1000000"

definition isCwndLimited ::
  "('hss, 'rtt, 'cubic, 'pacer, 'clock, 'tracer) locoSender \<Rightarrow> ByteCount \<Rightarrow> bool" where
  "isCwndLimited l bytesInFlight = False"

definition BandwidthEstimate ::
  "('hss, 'rtt, 'cubic, 'pacer, 'clock, 'tracer) locoSender \<Rightarrow> Bandwidth" where
  "BandwidthEstimate l = 100000000000"

subsection \<open>Methods without a result\<close>

definition OnPacketSent ::
  "('hss, 'rtt, 'cubic, 'pacer, 'clock, 'tracer) locoSender \<Rightarrow> Time \<Rightarrow> ByteCount \<Rightarrow>
   PacketNumber \<Rightarrow> ByteCount \<Rightarrow> bool \<Rightarrow>
   ('hss, 'rtt, 'cubic, 'pacer, 'clock, 'tracer) locoSender \<times> tracer_event list" where
  "OnPacketSent l sentTime bytesInFlight packetNumber bytes isRetransmittable = (l, [])"

definition MaybeExitSlowStart ::
  "('hss, 'rtt, 'cubic, 'pacer, 'clock, 'tracer) locoSender \<Rightarrow>
   ('hss, 'rtt, 'cubic, 'pacer, 'clock, 'tracer) locoSender \<times> tracer_event list" where
  "MaybeExitSlowStart l = (l, [])"

definition OnPacketAcked ::
  "('hss, 'rtt, 'cubic, 'pacer, 'clock, 'tracer) locoSender \<Rightarrow> PacketNumber \<Rightarrow> ByteCount \<Rightarrow>
   ByteCount \<Rightarrow> Time \<Rightarrow>
   ('hss, 'rtt, 'cubic, 'pacer, 'clock, 'tracer) locoSender \<times> tracer_event list" where
  "OnPacketAcked l ackedPacketNumber ackedBytes priorInFlight eventTime = (l, [])"

definition OnPacketLost ::
  "('hss, 'rtt, 'cubic, 'pacer, 'clock, 'tracer) locoSender \<Rightarrow> PacketNumber \<Rightarrow> ByteCount \<Rightarrow>
   ByteCount \<Rightarrow>
   ('hss, 'rtt, 'cubic, 'pacer, 'clock, 'tracer) locoSender \<times> tracer_event list" where
  "OnPacketLost l packetNumber lostBytes priorInFlight = (l, [])"

definition maybeIncreaseCwnd ::
  "('hss, 'rtt, 'cubic, 'pacer, 'clock, 'tracer) locoSender \<Rightarrow> PacketNumber \<Rightarrow> ByteCount \<Rightarrow>
   ByteCount \<Rightarrow> Time \<Rightarrow>
   ('hss, 'rtt, 'cubic, 'pacer, 'clock, 'tracer) locoSender \<times> tracer_event list" where
  "maybeIncreaseCwnd l ackedPacketNumber ackedBytes priorInFlight eventTime = (l, [])"

definition OnRetransmissionTimeout ::
  "('hss, 'rtt, 'cubic, 'pacer, 'clock, 'tracer) locoSender \<Rightarrow> bool \<Rightarrow>
   ('hss, 'rtt, 'cubic, 'pacer, 'clock, 'tracer) locoSender \<times> tracer_event list" where
  "OnRetransmissionTimeout l packetsRetransmitted = (l, [])"

definition OnConnectionMigration ::
  "('hss, 'rtt, 'cubic, 'pacer, 'clock, 'tracer) locoSender \<Rightarrow>
   ('hss, 'rtt, 'cubic, 'pacer, 'clock, 'tracer) locoSender \<times> tracer_event list" where
  "OnConnectionMigration l = (l, [])"

definition maybeTraceStateChange ::
  "('hss, 'rtt, 'cubic, 'pacer, 'clock, 'tracer) locoSender \<Rightarrow> CongestionState \<Rightarrow>
   ('hss, 'rtt, 'cubic, 'pacer, 'clock, 'tracer) locoSender \<times> tracer_event list" where
  "maybeTraceStateChange l new =
     (if tracer l = None \<or> new = lastState l then (l, [])
      else (l\<lparr>lastState := new\<rparr>, [UpdatedCongestionState new]))"

definition SetMaxDatagramSize ::
  "('hss, 'rtt, 'cubic, 'pacer, 'clock, 'tracer) locoSender \<Rightarrow> ByteCount \<Rightarrow>
   ('hss, 'rtt, 'cubic, 'pacer, 'clock, 'tracer) locoSender \<times> tracer_event list" where
  "SetMaxDatagramSize l s = (l\<lparr>maxDatagramSize := s\<rparr>, [])"

subsection \<open>Sequences of calls\<close>

text \<open>
  The calls a holder of the sender can make that may change it: the exported methods
  without a result. \<^verbatim>\<open>maybeIncreaseCwnd\<close> and \<^verbatim>\<open>maybeTraceStateChange\<close> are
  unexported and no method of the sender calls them.
\<close>

datatype operation =
    OpOnPacketSent Time ByteCount PacketNumber ByteCount bool
  | OpMaybeExitSlowStart
  | OpOnPacketAcked PacketNumber ByteCount ByteCount Time
  | OpOnPacketLost PacketNumber ByteCount ByteCount
  | OpOnRetransmissionTimeout bool
  | OpOnConnectionMigration
  | OpSetMaxDatagramSize ByteCount

fun call ::
  "('hss, 'rtt, 'cubic, 'pacer, 'clock, 'tracer) locoSender \<Rightarrow> operation \<Rightarrow>
   ('hss, 'rtt, 'cubic, 'pacer, 'clock, 'tracer) locoSender \<times> tracer_event list" where
  "call l (OpOnPacketSent t f n b r) = OnPacketSent l t f n b r"
| "call l OpMaybeExitSlowStart = MaybeExitSlowStart l"
| "call l (OpOnPacketAcked n a p t) = OnPacketAcked l n a p t"
| "call l (OpOnPacketLost n b p) = OnPacketLost l n b p"
| "call l (OpOnRetransmissionTimeout r) = OnRetransmissionTimeout l r"
| "call l OpOnConnectionMigration = OnConnectionMigration l"
| "call l (OpSetMaxDatagramSize s) = SetMaxDatagramSize l s"

text \<open>The sender after a sequence of calls, and the tracer events of the sequence.\<close>

fun run ::
  "('hss, 'rtt, 'cubic, 'pacer, 'clock, 'tracer) locoSender \<Rightarrow> operation list \<Rightarrow>
   ('hss, 'rtt, 'cubic, 'pacer, 'clock, 'tracer) locoSender \<times> tracer_event list" where
  "run l [] = (l, [])"
| "run l (x # xs) =
     (case call l x of (l', ev) \<Rightarrow> (case run l' xs of (l'', ev') \<Rightarrow> (l'', ev @ ev')))"

subsection \<open>A concrete sender\<close>

text \<open>
  An environment and a sender for the concrete evaluations below: the sender that
  \<^verbatim>\<open>NewLocoSender\<close> builds for a datagram size of 1200 bytes and no tracer.
\<close>

definition example_env :: "(unit, unit, unit) package_env" where
  "example_env =
     \<lparr> InvalidPacketNumber = - 1,
       MaxByteCount = 2 ^ 62 - 1,
       MaxCongestionWindowPackets = 10000,
       initialCongestionWindowPackets = 32,
       NewCubic = (\<lambda>_. ()),
       zeroHybridSlowStart = (),
       zeroCongestionState = CongestionStateSlowStart \<rparr>"

definition example_sender :: "(unit, unit, unit, unit, unit, unit) locoSender" where
  "example_sender = fst (NewLocoSender example_env () () 1200 True None)"

text \<open>
  The life of a sender: \<^verbatim>\<open>NewLocoSender\<close>, then a sequence of calls. The events are
  those of the construction followed by those of the calls.
\<close>

definition lifetime ::
  "('hss, 'cubic, 'clock) package_env \<Rightarrow> 'clock \<Rightarrow> 'rtt \<Rightarrow> ByteCount \<Rightarrow> bool \<Rightarrow>
   'tracer option \<Rightarrow> operation list \<Rightarrow>
   ('hss, 'rtt, 'cubic, 'pacer, 'clock, 'tracer) locoSender \<times> tracer_event list" where
  "lifetime env clk rtt initialMaxDatagramSize rn tr ops =
     (case NewLocoSender env clk rtt initialMaxDatagramSize rn tr of
        (l, ev) \<Rightarrow> (case run l ops of (l', ev') \<Rightarrow> (l', ev @ ev')))"

subsection \<open>The algorithm tag and its name\<close>

text \<open>
  \<^verbatim>\<open>CongestionAlgo\<close> is a Go \<^verbatim>\<open>int\<close>. \<^verbatim>\<open>String\<close> only compares the value, adds one
  to it when it is 0 or 1, and converts it to \<^verbatim>\<open>int64\<close>, so no operation on it can
  wrap and the integers stand for it. The generated names \<^verbatim>\<open>_CongestionAlgo_name\<close> and
  \<^verbatim>\<open>_CongestionAlgo_index\<close> lose their leading underscore.
\<close>

type_synonym CongestionAlgo = int

definition ALGO_UNKNOWN :: CongestionAlgo where
  "ALGO_UNKNOWN = 0"

definition ALGO_CUBIC :: CongestionAlgo where
  "ALGO_CUBIC = 1"

definition CongestionAlgo_name :: string where
  "CongestionAlgo_name = ''ALGO_UNKNOWNALGO_CUBIC''"

definition CongestionAlgo_index :: "8 word list" where
  "CongestionAlgo_index = [0, 12, 22]"

text \<open>Go panics when an index or the bounds of a slice expression are out of range.\<close>

datatype panic = IndexOutOfRange | SliceBoundsOutOfRange

definition index_at :: "'a list \<Rightarrow> int \<Rightarrow> panic + 'a" where
  "index_at xs i =
     (if 0 \<le> i \<and> i < int (length xs) then Inr (xs ! nat i) else Inl IndexOutOfRange)"

definition slice_string :: "string \<Rightarrow> nat \<Rightarrow> nat \<Rightarrow> panic + string" where
  "slice_string s lo hi =
     (if lo \<le> hi \<and> hi \<le> length s then Inr (take (hi - lo) (drop lo s))
      else Inl SliceBoundsOutOfRange)"

text \<open>
  \<^verbatim>\<open>strconv.FormatInt(i, 10)\<close>: the digits of the magnitude, most significant first,
  after a minus sign when \<open>i\<close> is negative.
\<close>

definition digits :: string where
  "digits = ''0123456789abcdefghijklmnopqrstuvwxyz''"

fun formatBits :: "nat \<Rightarrow> string" where
  "formatBits u =
     (if u < 10 then [digits ! u] else formatBits (u div 10) @ [digits ! (u mod 10)])"

declare formatBits.simps [simp del]

definition FormatInt :: "int \<Rightarrow> string" where
  "FormatInt i = (if i < 0 then CHR ''-'' # formatBits (nat (- i)) else formatBits (nat i))"

definition String :: "CongestionAlgo \<Rightarrow> panic + string" where
  "String i =
     (if i < 0 \<or> i \<ge> int (length CongestionAlgo_index) - 1
      then Inr (''CongestionAlgo('' @ FormatInt i @ '')'')
      else case index_at CongestionAlgo_index i of
             Inl e \<Rightarrow> Inl e
           | Inr lo \<Rightarrow>
               (case index_at CongestionAlgo_index (i + 1) of
                  Inl e \<Rightarrow> Inl e
                | Inr hi \<Rightarrow> slice_string CongestionAlgo_name (unat lo) (unat hi)))"

text \<open>The number a string of decimal digits denotes.\<close>

definition digit_value :: "char \<Rightarrow> nat" where
  "digit_value c = of_char c - of_char CHR ''0''"

definition decimal_value :: "string \<Rightarrow> nat" where
  "decimal_value s = foldl (\<lambda>a c. 10 * a + digit_value c) 0 s"

section \<open>The ackhandler package: the factory\<close>

text \<open>
  The two congestion controllers a sent-packet handler can hold, and the two handlers.
  Of a sent-packet handler, whose own file is not part of the sources, the model keeps
  the arguments it was built from and the controller.
\<close>

datatype SendAlgorithm = CubicSender | LocoSender

datatype Perspective = PerspectiveServer | PerspectiveClient

record ('rtt, 'tracer, 'logger) sentPacketHandler =
  sph_initialPacketNumber :: PacketNumber
  sph_initialMaxDatagramSize :: ByteCount
  sph_rttStats :: 'rtt
  sph_perspective :: Perspective
  sph_tracer :: "'tracer option"
  sph_logger :: 'logger
  congestion :: SendAlgorithm

record ('rtt, 'tracer, 'logger, 'version) receivedPacketHandler =
  rph_sentPackets :: "('rtt, 'tracer, 'logger) sentPacketHandler"
  rph_rttStats :: 'rtt
  rph_logger :: 'logger
  rph_version :: 'version

text \<open>
  Modelled from the spec: \<^verbatim>\<open>newSentPacketHandler\<close> is not part of the sources. The spec:
  the factory "wires the chosen congestion controller into the sent-packet handler";
  "Algorithm dispatch: Cubic \<open>\<rightarrow>\<close> CubicSender; any other selector path \<open>\<rightarrow>\<close>
  LocoSender".
\<close>

definition newSentPacketHandler ::
  "PacketNumber \<Rightarrow> ByteCount \<Rightarrow> 'rtt \<Rightarrow> Perspective \<Rightarrow> 'tracer option \<Rightarrow> 'logger \<Rightarrow>
   CongestionAlgo \<Rightarrow> ('rtt, 'tracer, 'logger) sentPacketHandler" where
  "newSentPacketHandler initialPacketNumber initialMaxDatagramSize rtt pers tr logger
       congestionAlgo =
     \<lparr> sph_initialPacketNumber = initialPacketNumber,
       sph_initialMaxDatagramSize = initialMaxDatagramSize,
       sph_rttStats = rtt,
       sph_perspective = pers,
       sph_tracer = tr,
       sph_logger = logger,
       congestion = (if congestionAlgo = ALGO_CUBIC then CubicSender else LocoSender) \<rparr>"

text \<open>
  Modelled from the spec: \<^verbatim>\<open>newReceivedPacketHandler\<close> is not part of the sources. The
  spec says only that the factory constructs a received-packet handler; the model keeps
  the arguments it is built from.
\<close>

definition newReceivedPacketHandler ::
  "('rtt, 'tracer, 'logger) sentPacketHandler \<Rightarrow> 'rtt \<Rightarrow> 'logger \<Rightarrow> 'version \<Rightarrow>
   ('rtt, 'tracer, 'logger, 'version) receivedPacketHandler" where
  "newReceivedPacketHandler sph rtt logger version =
     \<lparr> rph_sentPackets = sph, rph_rttStats = rtt, rph_logger = logger,
       rph_version = version \<rparr>"

definition NewAckHandler ::
  "PacketNumber \<Rightarrow> ByteCount \<Rightarrow> 'rtt \<Rightarrow> Perspective \<Rightarrow> 'tracer option \<Rightarrow> 'logger \<Rightarrow>
   'version \<Rightarrow> CongestionAlgo \<Rightarrow>
   ('rtt, 'tracer, 'logger) sentPacketHandler \<times>
   ('rtt, 'tracer, 'logger, 'version) receivedPacketHandler" where
  "NewAckHandler initialPacketNumber initialMaxDatagramSize rtt pers tr logger version
       congestionAlgo =
     (let sph = newSentPacketHandler initialPacketNumber initialMaxDatagramSize rtt pers tr
                  logger congestionAlgo
      in (sph, newReceivedPacketHandler sph rtt logger version))"

section \<open>Properties of the Loco sender\<close>

subsection \<open>What a call and a sequence of calls can change\<close>

lemmas mutator_defs =
  OnPacketSent_def MaybeExitSlowStart_def OnPacketAcked_def OnPacketLost_def
  OnRetransmissionTimeout_def OnConnectionMigration_def SetMaxDatagramSize_def

lemma call_events: "snd (call l x) = []"
  by (cases x) (simp_all add: mutator_defs)

lemma call_frame: "fst (call l x) = l\<lparr>maxDatagramSize := maxDatagramSize (fst (call l x))\<rparr>"
  by (cases x) (simp_all add: mutator_defs)

lemma run_events: "snd (run l ops) = []"
proof (induction ops arbitrary: l)
  case Nil
  show ?case by simp
next
  case (Cons x xs)
  obtain l' ev where c: "call l x = (l', ev)" by (cases "call l x")
  obtain l'' ev' where r: "run l' xs = (l'', ev')" by (cases "run l' xs")
  have "ev = []" using call_events [of l x] c by simp
  moreover have "ev' = []" using Cons.IH [of l'] r by simp
  ultimately show ?case using c r by simp
qed

lemma run_frame: "fst (run l ops) = l\<lparr>maxDatagramSize := maxDatagramSize (fst (run l ops))\<rparr>"
proof (induction ops arbitrary: l)
  case Nil
  show ?case by simp
next
  case (Cons x xs)
  obtain l' ev where c: "call l x = (l', ev)" by (cases "call l x")
  obtain l'' ev' where r: "run l' xs = (l'', ev')" by (cases "run l' xs")
  have 1: "l' = l\<lparr>maxDatagramSize := maxDatagramSize l'\<rparr>"
    using call_frame [of l x] c by simp
  have 2: "l'' = l'\<lparr>maxDatagramSize := maxDatagramSize l''\<rparr>"
    using Cons.IH [of l'] r by simp
  have "l'' = l\<lparr>maxDatagramSize := maxDatagramSize l''\<rparr>"
    by (subst 2, subst 1) simp
  then show ?case using c r by simp
qed

text \<open>
  The unexported \<^verbatim>\<open>maybeTraceStateChange\<close> would emit an event for a sender with a
  tracer and a new state; it is not among the operations, since nothing calls it.
\<close>

lemma maybeTraceStateChange_emits:
  "tracer l = Some t \<Longrightarrow> new \<noteq> lastState l \<Longrightarrow>
   maybeTraceStateChange l new = (l\<lparr>lastState := new\<rparr>, [UpdatedCongestionState new])"
  by (simp add: maybeTraceStateChange_def)

subsection \<open>Products of byte counts that do not wrap\<close>

lemma unat_times_no_wrap:
  fixes s c :: ByteCount
  assumes "unat s * unat c < 2 ^ 64"
  shows "unat (s * c) = unat s * unat c"
proof -
  have "unat s * unat c < 2 ^ LENGTH(64)"
    using assms by simp
  then show ?thesis
    by (simp only: unat_mult_lem)
qed

lemma sint_eq_unat_small:
  fixes w :: ByteCount
  assumes "unat w < 2 ^ 63"
  shows "sint w = int (unat w)"
proof -
  have "int (unat w) < int (2 ^ 63)"
    using assms by (simp only: of_nat_less_iff)
  then have hi: "uint w < 2 ^ 63"
    by simp
  have "(0::int) \<le> uint w"
    by simp
  then have lo: "- (2 ^ 63) \<le> uint w"
    by (rule order_trans [rotated]) simp
  have "sint w = signed_take_bit 63 (uint w)"
    by (simp add: sint_uint)
  also have "\<dots> = uint w"
    using lo hi by (rule signed_take_bit_int_eq_self)
  finally show ?thesis
    by simp
qed

lemma million_times_no_wrap:
  fixes s :: ByteCount
  assumes "unat s * 1000000 < 2 ^ 63"
  shows "unat (s * 1000000) = 1000000 * unat s"
    and "sint (s * 1000000) = 1000000 * int (unat s)"
proof -
  have "unat s * unat (1000000 :: ByteCount) < 2 ^ 64"
    using assms by simp
  then have "unat (s * 1000000) = unat s * unat (1000000 :: ByteCount)"
    by (rule unat_times_no_wrap)
  then show u: "unat (s * 1000000) = 1000000 * unat s"
    by simp
  have "unat (s * 1000000) < 2 ^ 63"
    using assms by (simp only: u mult.commute [of 1000000 "unat s"])
  then have "sint (s * 1000000) = int (unat (s * 1000000))"
    by (rule sint_eq_unat_small)
  then show "sint (s * 1000000) = 1000000 * int (unat s)"
    by (simp only: u of_nat_mult of_nat_numeral)
qed

text \<open>
  For every datagram size that is not zero and whose product with 1,000,000 fits in 64
  bits, the window the sender reports is above its own maximum in the unsigned order.
\<close>

lemma loco_window_above_max:
  assumes "0 < unat (maxDatagramSize l)" and "unat (maxDatagramSize l) * 1000000 < 2 ^ 64"
  shows "maxCongestionWindow l < GetCongestionWindow l"
proof -
  let ?m = "maxDatagramSize l"
  have "unat ?m * unat (1000000 :: ByteCount) < 2 ^ 64"
    using assms(2) by simp
  then have "unat (?m * 1000000) = unat ?m * unat (1000000 :: ByteCount)"
    by (rule unat_times_no_wrap)
  then have a: "unat (?m * 1000000) = unat ?m * 1000000"
    by simp
  have "unat ?m * unat (10000 :: ByteCount) < 2 ^ 64"
    using assms(2) by simp
  then have "unat (?m * 10000) = unat ?m * unat (10000 :: ByteCount)"
    by (rule unat_times_no_wrap)
  then have b: "unat (?m * 10000) = unat ?m * 10000"
    by simp
  have "unat (?m * 10000) < unat (?m * 1000000)"
    using assms(1) by (simp add: a b)
  then show ?thesis
    by (simp add: maxCongestionWindow_def GetCongestionWindow_def word_less_nat_alt)
qed

subsection \<open>The sender's contract\<close>

text \<open>
  C1. In every state of the sender and for every number of bytes in flight, CanSend is
  true, HasPacingBudget is true and TimeUntilSend is the zero instant; so too in the
  state after any sequence of calls.
\<close>

theorem C1_always_sendable:
  "CanSend l b \<and> HasPacingBudget l \<and> TimeUntilSend l b = zeroTime \<and>
   CanSend (fst (run l ops)) b \<and> HasPacingBudget (fst (run l ops)) \<and>
   TimeUntilSend (fst (run l ops)) b = zeroTime"
  by (simp add: CanSend_def HasPacingBudget_def TimeUntilSend_def)

text \<open>
  C2. The specification requires the window GetCongestionWindow reports to lie between
  minCongestionWindow and maxCongestionWindow. For the sender built with a datagram
  size of 1200 bytes it does not: the reported window is 1,200,000,000 bytes, the
  maximum is 12,000,000 bytes (and the minimum 1,200,000 bytes). The reported window is
  above the maximum in the unsigned and in the signed order.
\<close>

theorem C2_reported_window_exceeds_max:
  "maxDatagramSize example_sender = 1200 \<and>
   GetCongestionWindow example_sender = 1200000000 \<and>
   maxCongestionWindow example_sender = 12000000 \<and>
   minCongestionWindow example_sender = 1200000 \<and>
   minCongestionWindow example_sender < GetCongestionWindow example_sender \<and>
   maxCongestionWindow example_sender < GetCongestionWindow example_sender \<and>
   maxCongestionWindow example_sender <s GetCongestionWindow example_sender"
  by (simp add: example_sender_def example_env_def NewLocoSender_def newLocoSender_def
      GetCongestionWindow_def maxCongestionWindow_def minCongestionWindow_def word_sless_alt)

text \<open>
  C3. In every state, and so after any sequence of calls, GetCongestionWindow returns
  the product of the current maxDatagramSize and 1,000,000 in ByteCount arithmetic,
  that is, modulo \<open>2 ^ 64\<close>; after SetMaxDatagramSize(s) that is the product of s and
  1,000,000. Read as an unsigned number the result is 1,000,000 times the datagram
  size exactly when that product is below \<open>2 ^ 64\<close>; where the product is below
  \<open>2 ^ 63\<close> the result is 1,000,000 times the datagram size read as a signed number
  too.
\<close>

theorem C3_reported_window:
  "GetCongestionWindow l = maxDatagramSize l * 1000000 \<and>
   GetCongestionWindow (fst (run l ops)) = maxDatagramSize (fst (run l ops)) * 1000000 \<and>
   GetCongestionWindow (fst (SetMaxDatagramSize l s)) = s * 1000000 \<and>
   GetCongestionWindow (fst (run l (ops @ [OpSetMaxDatagramSize s]))) = s * 1000000 \<and>
   (unat (GetCongestionWindow l) = 1000000 * unat (maxDatagramSize l) \<longleftrightarrow>
      unat (maxDatagramSize l) * 1000000 < 2 ^ 64) \<and>
   (unat (maxDatagramSize l) * 1000000 < 2 ^ 63 \<longrightarrow>
      sint (GetCongestionWindow l) = 1000000 * int (unat (maxDatagramSize l))) \<and>
   (unat (GetCongestionWindow (fst (SetMaxDatagramSize l s))) = 1000000 * unat s \<longleftrightarrow>
      unat s * 1000000 < 2 ^ 64) \<and>
   (unat s * 1000000 < 2 ^ 63 \<longrightarrow>
      unat (GetCongestionWindow (fst (SetMaxDatagramSize l s))) = 1000000 * unat s \<and>
      sint (GetCongestionWindow (fst (SetMaxDatagramSize l s))) = 1000000 * int (unat s))"
proof -
  have u: "unat (m * 1000000) = 1000000 * unat m \<longleftrightarrow> unat m * 1000000 < 2 ^ 64"
    for m :: ByteCount
  proof -
    have "unat m * unat (1000000 :: ByteCount) < 2 ^ LENGTH(64) \<longleftrightarrow>
        unat (m * 1000000) = unat m * unat (1000000 :: ByteCount)"
      by (rule unat_mult_lem)
    then show ?thesis
      by (simp add: mult.commute)
  qed
  have w: "unat m * 1000000 < 2 ^ 63 \<longrightarrow>
      unat (m * 1000000) = 1000000 * unat m \<and> sint (m * 1000000) = 1000000 * int (unat m)"
    for m :: ByteCount
    using million_times_no_wrap [of m] by blast
  have r: "maxDatagramSize (fst (run l (ops @ [OpSetMaxDatagramSize s]))) = s"
  proof (induction ops arbitrary: l)
    case Nil
    show ?case by (simp add: SetMaxDatagramSize_def)
  next
    case (Cons x xs)
    show ?case using Cons.IH [of "fst (call l x)"]
      by (simp add: split_beta)
  qed
  show ?thesis
    using u [of "maxDatagramSize l"] u [of s] w [of "maxDatagramSize l"] w [of s] r
    by (simp add: GetCongestionWindow_def SetMaxDatagramSize_def)
qed

theorem C3_reported_window_witness:
  "maxDatagramSize example_sender = 1200 \<and>
   unat (1200 :: ByteCount) * 1000000 < 2 ^ 63 \<and>
   unat (GetCongestionWindow example_sender) = 1200000000 \<and>
   sint (GetCongestionWindow example_sender) = 1200000000 \<and>
   unat (1500 :: ByteCount) * 1000000 < 2 ^ 63 \<and>
   maxDatagramSize (fst (SetMaxDatagramSize example_sender 1500)) = 1500 \<and>
   unat (GetCongestionWindow (fst (SetMaxDatagramSize example_sender 1500))) = 1500000000 \<and>
   sint (GetCongestionWindow (fst (SetMaxDatagramSize example_sender 1500))) = 1500000000"
proof -
  have m: "maxDatagramSize example_sender = 1200"
    by (simp add: example_sender_def example_env_def NewLocoSender_def newLocoSender_def)
  have s: "maxDatagramSize (fst (SetMaxDatagramSize example_sender 1500)) = 1500"
    by (simp add: SetMaxDatagramSize_def)
  show ?thesis
    using C3_reported_window [of example_sender "[]" 1500] m s by simp
qed

text \<open>
  As a number the window is not always 1,000,000 times the datagram size:
  SetMaxDatagramSize takes any byte count, and the product wraps. After
  SetMaxDatagramSize(\<open>2 ^ 62\<close>) the sender reports a window of 0; after
  SetMaxDatagramSize(\<open>2 ^ 62 - 1\<close>) it reports \<open>2 ^ 64 - 1000000\<close>, which is -1,000,000
  as a signed number.
\<close>

theorem C3_window_wraps:
  "maxDatagramSize (fst (SetMaxDatagramSize example_sender (2 ^ 62))) = 2 ^ 62 \<and>
   GetCongestionWindow (fst (SetMaxDatagramSize example_sender (2 ^ 62))) = 0 \<and>
   unat (GetCongestionWindow (fst (SetMaxDatagramSize example_sender (2 ^ 62)))) \<noteq>
     1000000 * unat (2 ^ 62 :: ByteCount) \<and>
   sint (GetCongestionWindow (fst (SetMaxDatagramSize example_sender (2 ^ 62)))) \<noteq>
     1000000 * sint (2 ^ 62 :: ByteCount) \<and>
   unat (GetCongestionWindow (fst (SetMaxDatagramSize example_sender (2 ^ 62 - 1)))) =
     2 ^ 64 - 1000000 \<and>
   unat (GetCongestionWindow (fst (SetMaxDatagramSize example_sender (2 ^ 62 - 1)))) \<noteq>
     1000000 * unat (2 ^ 62 - 1 :: ByteCount) \<and>
   sint (GetCongestionWindow (fst (SetMaxDatagramSize example_sender (2 ^ 62 - 1)))) =
     - 1000000 \<and>
   sint (GetCongestionWindow (fst (SetMaxDatagramSize example_sender (2 ^ 62 - 1)))) \<noteq>
     1000000 * sint (2 ^ 62 - 1 :: ByteCount)"
  by (simp add: GetCongestionWindow_def SetMaxDatagramSize_def)

text \<open>
  C4. OnPacketSent, OnPacketAcked, OnPacketLost, OnRetransmissionTimeout,
  OnConnectionMigration and MaybeExitSlowStart leave the sender as it was, whatever the
  arguments. SetMaxDatagramSize(s) sets maxDatagramSize to s and leaves every other
  field as it was: the sender afterwards is the sender before with that one field
  updated, and in particular congestionWindow, slowStartThreshold and the three
  packet-number fields are unchanged. A sequence of calls changes at most
  maxDatagramSize.
\<close>

theorem C4_frame:
  "fst (OnPacketSent l sentTime bytesInFlight packetNumber bytes isRetransmittable) = l \<and>
   fst (OnPacketAcked l ackedPacketNumber ackedBytes priorInFlight eventTime) = l \<and>
   fst (OnPacketLost l lostPacketNumber lostBytes priorInFlight') = l \<and>
   fst (OnRetransmissionTimeout l packetsRetransmitted) = l \<and>
   fst (OnConnectionMigration l) = l \<and>
   fst (MaybeExitSlowStart l) = l \<and>
   fst (SetMaxDatagramSize l s) = l\<lparr>maxDatagramSize := s\<rparr> \<and>
   maxDatagramSize (fst (SetMaxDatagramSize l s)) = s \<and>
   congestionWindow (fst (SetMaxDatagramSize l s)) = congestionWindow l \<and>
   slowStartThreshold (fst (SetMaxDatagramSize l s)) = slowStartThreshold l \<and>
   largestSentPacketNumber (fst (SetMaxDatagramSize l s)) = largestSentPacketNumber l \<and>
   largestAckedPacketNumber (fst (SetMaxDatagramSize l s)) = largestAckedPacketNumber l \<and>
   largestSentAtLastCutback (fst (SetMaxDatagramSize l s)) = largestSentAtLastCutback l \<and>
   fst (run l ops) = l\<lparr>maxDatagramSize := maxDatagramSize (fst (run l ops))\<rparr>"
  using run_frame [of l ops] by (simp add: mutator_defs)

text \<open>
  C5. Constructing a sender with a tracer emits exactly one event,
  UpdatedCongestionState(SlowStart); constructing one without a tracer emits none. No
  sequence of calls on a sender, in whatever state, emits an event. So the events of a
  sender's whole life are that one event with a tracer, and none without.
\<close>

theorem C5_tracer_events:
  "snd (newLocoSender env clk rtt rn mds initialCwnd initialMaxCwnd (Some t)) =
     [UpdatedCongestionState CongestionStateSlowStart] \<and>
   snd (newLocoSender env clk rtt rn mds initialCwnd initialMaxCwnd None) = [] \<and>
   snd (NewLocoSender env clk rtt mds rn (Some t)) =
     [UpdatedCongestionState CongestionStateSlowStart] \<and>
   snd (NewLocoSender env clk rtt mds rn None) = [] \<and>
   snd (run l ops) = [] \<and>
   snd (lifetime env clk rtt mds rn (Some t) ops) =
     [UpdatedCongestionState CongestionStateSlowStart] \<and>
   snd (lifetime env clk rtt mds rn None ops) = []"
proof -
  have c: "snd (newLocoSender env clk rtt rn mds initialCwnd initialMaxCwnd (Some t)) =
      [UpdatedCongestionState CongestionStateSlowStart]"
    "snd (newLocoSender env clk rtt rn mds initialCwnd initialMaxCwnd None) = []"
    by (simp_all add: newLocoSender_def)
  have n: "snd (NewLocoSender env clk rtt mds rn (Some t)) =
      [UpdatedCongestionState CongestionStateSlowStart]"
    "snd (NewLocoSender env clk rtt mds rn None) = []"
    by (simp_all add: NewLocoSender_def newLocoSender_def)
  have life: "snd (lifetime env clk rtt mds rn (Some t) ops) =
      [UpdatedCongestionState CongestionStateSlowStart]"
    "snd (lifetime env clk rtt mds rn None ops) = []"
    by (simp_all add: lifetime_def split_beta run_events NewLocoSender_def newLocoSender_def)
  show ?thesis
    using c n life run_events [of l ops] by simp
qed

text \<open>
  C7. The sender newLocoSender returns has slowStartThreshold MaxByteCount,
  congestionWindow the initial congestion window it was given, and the three
  packet-number fields InvalidPacketNumber, with or without a tracer. Through
  NewLocoSender the initial congestion window is the package's initial number of
  packets times the datagram size.
\<close>

theorem C7_fresh_sender:
  "slowStartThreshold (fst (newLocoSender env clk rtt rn mds initialCwnd initialMaxCwnd tr)) =
     MaxByteCount env \<and>
   congestionWindow (fst (newLocoSender env clk rtt rn mds initialCwnd initialMaxCwnd tr)) =
     initialCwnd \<and>
   largestSentPacketNumber
     (fst (newLocoSender env clk rtt rn mds initialCwnd initialMaxCwnd tr)) =
     InvalidPacketNumber env \<and>
   largestAckedPacketNumber
     (fst (newLocoSender env clk rtt rn mds initialCwnd initialMaxCwnd tr)) =
     InvalidPacketNumber env \<and>
   largestSentAtLastCutback
     (fst (newLocoSender env clk rtt rn mds initialCwnd initialMaxCwnd tr)) =
     InvalidPacketNumber env \<and>
   slowStartThreshold (fst (NewLocoSender env clk rtt mds rn tr)) = MaxByteCount env \<and>
   congestionWindow (fst (NewLocoSender env clk rtt mds rn tr)) =
     initialCongestionWindowPackets env * mds \<and>
   largestSentPacketNumber (fst (NewLocoSender env clk rtt mds rn tr)) =
     InvalidPacketNumber env \<and>
   largestAckedPacketNumber (fst (NewLocoSender env clk rtt mds rn tr)) =
     InvalidPacketNumber env \<and>
   largestSentAtLastCutback (fst (NewLocoSender env clk rtt mds rn tr)) =
     InvalidPacketNumber env"
  by (cases tr) (simp_all add: NewLocoSender_def newLocoSender_def)

text \<open>
  C8. In every state of the sender, and so after any sequence of calls (losses and
  retransmission timeouts among them), InSlowStart and InRecovery are false.
\<close>

theorem C8_never_slow_start_or_recovery:
  "\<not> InSlowStart l \<and> \<not> InRecovery l \<and>
   \<not> InSlowStart (fst (run l ops)) \<and> \<not> InRecovery (fst (run l ops))"
  by (simp add: InSlowStart_def InRecovery_def)

text \<open>
  C9. In every state of the sender, whatever its RTT statistics, and so after any
  sequence of calls, BandwidthEstimate is 100,000,000,000, a value that 64 bits hold
  without wrapping.
\<close>

theorem C9_bandwidth_estimate:
  "BandwidthEstimate l = 100000000000 \<and>
   unat (BandwidthEstimate l) = 100000000000 \<and>
   BandwidthEstimate (l\<lparr>rttStats := rtt\<rparr>) = BandwidthEstimate l \<and>
   BandwidthEstimate (fst (run l ops)) = 100000000000"
  by (simp add: BandwidthEstimate_def)

section \<open>Properties of the algorithm tag's name\<close>

lemma String_0: "String 0 = Inr ''ALGO_UNKNOWN''"
  by (simp add: String_def CongestionAlgo_index_def CongestionAlgo_name_def index_at_def
      slice_string_def)

lemma String_1: "String 1 = Inr ''ALGO_CUBIC''"
  by (simp add: String_def CongestionAlgo_index_def CongestionAlgo_name_def index_at_def
      slice_string_def)

lemma String_other:
  "i \<noteq> 0 \<Longrightarrow> i \<noteq> 1 \<Longrightarrow> String i = Inr (''CongestionAlgo('' @ FormatInt i @ '')'')"
  by (auto simp add: String_def CongestionAlgo_index_def)

lemma String_examples:
  "String 2 = Inr ''CongestionAlgo(2)''"
  "String (- 1) = Inr ''CongestionAlgo(-1)''"
  "String (- 17) = Inr ''CongestionAlgo(-17)''"
  "String 305 = Inr ''CongestionAlgo(305)''"
  by code_simp+

text \<open>The digits \<^verbatim>\<open>FormatInt\<close> writes are decimal digits and denote the magnitude.\<close>

lemma digit_value_digits: "d < 10 \<Longrightarrow> digit_value (digits ! d) = d"
proof -
  assume "d < 10"
  then have "d \<in> {0, 1, 2, 3, 4, 5, 6, 7, 8, 9}" by auto
  then show ?thesis
    by (auto simp add: digit_value_def digits_def)
qed

lemma digits_decimal: "d < 10 \<Longrightarrow> digits ! d \<in> set ''0123456789''"
proof -
  assume "d < 10"
  then have "d \<in> {0, 1, 2, 3, 4, 5, 6, 7, 8, 9}" by auto
  then show ?thesis
    by (auto simp add: digits_def)
qed

lemma decimal_value_snoc: "decimal_value (s @ [c]) = 10 * decimal_value s + digit_value c"
  by (simp add: decimal_value_def)

lemma decimal_value_formatBits: "decimal_value (formatBits u) = u"
proof (induction u rule: formatBits.induct)
  case (1 u)
  show ?case
  proof (cases "u < 10")
    case True
    then show ?thesis
      by (subst formatBits.simps) (simp add: decimal_value_def digit_value_digits)
  next
    case False
    then have "decimal_value (formatBits (u div 10)) = u div 10"
      using 1 by simp
    with False show ?thesis
      by (subst formatBits.simps) (simp add: decimal_value_snoc digit_value_digits)
  qed
qed

lemma formatBits_decimal: "set (formatBits u) \<subseteq> set ''0123456789''"
proof (induction u rule: formatBits.induct)
  case (1 u)
  show ?case
  proof (cases "u < 10")
    case True
    then show ?thesis
      using digits_decimal [of u] by (subst formatBits.simps) simp
  next
    case False
    then have "set (formatBits (u div 10)) \<subseteq> set ''0123456789''"
      using 1 by simp
    moreover have "digits ! (u mod 10) \<in> set ''0123456789''"
      by (rule digits_decimal) simp
    ultimately show ?thesis
      using False by (subst formatBits.simps) simp
  qed
qed

lemma FormatInt_sign: "FormatInt i = (if i < 0 then ''-'' else []) @ formatBits (nat \<bar>i\<bar>)"
  by (simp add: FormatInt_def)

text \<open>
  C10. String returns a string for every value of the tag and never panics on an index
  or a slice: "ALGO_UNKNOWN" for 0, "ALGO_CUBIC" for 1, and for every other value,
  negative ones included, "CongestionAlgo(" followed by the decimal rendering of the
  value and ")". The rendering is a minus sign for a negative value followed by decimal
  digits that denote the magnitude.
\<close>

theorem C10_String_total:
  "String i =
     Inr (if i = ALGO_UNKNOWN then ''ALGO_UNKNOWN''
          else if i = ALGO_CUBIC then ''ALGO_CUBIC''
          else ''CongestionAlgo('' @ FormatInt i @ '')'') \<and>
   FormatInt i = (if i < 0 then ''-'' else []) @ formatBits (nat \<bar>i\<bar>) \<and>
   set (formatBits (nat \<bar>i\<bar>)) \<subseteq> set ''0123456789'' \<and>
   decimal_value (formatBits (nat \<bar>i\<bar>)) = nat \<bar>i\<bar>"
  using String_0 String_1 String_other [of i] FormatInt_sign [of i]
    formatBits_decimal [of "nat \<bar>i\<bar>"] decimal_value_formatBits [of "nat \<bar>i\<bar>"]
  by (simp add: ALGO_UNKNOWN_def ALGO_CUBIC_def)

section \<open>Properties of the factory\<close>

text \<open>
  C6. NewAckHandler builds a sent-packet handler from its arguments and the tag, builds
  a received-packet handler on that sent-packet handler, and returns both. The
  controller in the sent-packet handler is the one the tag selects: a CubicSender for
  ALGO_CUBIC, a LocoSender for every other tag, ALGO_UNKNOWN among them.
\<close>

theorem C6_NewAckHandler_dispatch:
  "NewAckHandler ipn mds rtt pers tr logger version algo =
     (newSentPacketHandler ipn mds rtt pers tr logger algo,
      newReceivedPacketHandler (newSentPacketHandler ipn mds rtt pers tr logger algo)
        rtt logger version) \<and>
   rph_sentPackets (snd (NewAckHandler ipn mds rtt pers tr logger version algo)) =
     fst (NewAckHandler ipn mds rtt pers tr logger version algo) \<and>
   congestion (fst (NewAckHandler ipn mds rtt pers tr logger version algo)) =
     (if algo = ALGO_CUBIC then CubicSender else LocoSender) \<and>
   congestion (fst (NewAckHandler ipn mds rtt pers tr logger version ALGO_CUBIC)) =
     CubicSender \<and>
   congestion (fst (NewAckHandler ipn mds rtt pers tr logger version ALGO_UNKNOWN)) =
     LocoSender"
proof -
  have pair: "NewAckHandler ipn mds rtt pers tr logger version a =
      (newSentPacketHandler ipn mds rtt pers tr logger a,
       newReceivedPacketHandler (newSentPacketHandler ipn mds rtt pers tr logger a)
         rtt logger version)" for a
    by (simp add: NewAckHandler_def Let_def)
  have sent: "rph_sentPackets (newReceivedPacketHandler sph rtt logger version) = sph"
    for sph :: "('a, 'b, 'c) sentPacketHandler"
    by (simp add: newReceivedPacketHandler_def)
  have pick: "congestion (newSentPacketHandler ipn mds rtt pers tr logger a) =
      (if a = ALGO_CUBIC then CubicSender else LocoSender)" for a
    by (simp add: newSentPacketHandler_def)
  show ?thesis
    by (simp add: pair sent pick ALGO_CUBIC_def ALGO_UNKNOWN_def)
qed

end
